theory Spec2Isabelle
  imports Main "HOL-Library.Word"
begin

section \<open>JavaScript values as the client uses them\<close>

text \<open>
  A JavaScript string is a sequence of UTF-16 code units; \<open>length\<close> counts code units and
  \<open>===\<close> on strings is equality of the sequences. The literals of the source are ASCII
  and are written through \<open>js\<close>.
\<close>

type_synonym code_unit = "16 word"
type_synonym jstring = "code_unit list"

definition js :: "string \<Rightarrow> jstring" where
  "js s = map of_char s"

text \<open>
  \<open>String.prototype.trim\<close> removes the WhiteSpace and LineTerminator code points of
  ECMAScript from both ends.
\<close>

definition is_white_space :: "code_unit \<Rightarrow> bool" where
  "is_white_space c \<longleftrightarrow>
     c = 0x0009 \<or> c = 0x000A \<or> c = 0x000B \<or> c = 0x000C \<or> c = 0x000D \<or> c = 0x0020 \<or>
     c = 0x00A0 \<or> c = 0x1680 \<or> (0x2000 \<le> c \<and> c \<le> 0x200A) \<or> c = 0x2028 \<or>
     c = 0x2029 \<or> c = 0x202F \<or> c = 0x205F \<or> c = 0x3000 \<or> c = 0xFEFF"

definition trim :: "jstring \<Rightarrow> jstring" where
  "trim s = rev (dropWhile is_white_space (rev (dropWhile is_white_space s)))"

text \<open>
  \<open>Array.prototype.slice(start)\<close> with one argument: a negative \<open>start\<close> counts from the
  end and is clamped at the beginning of the array, a positive one is clamped at its end.
\<close>

definition slice_from :: "int \<Rightarrow> 'a list \<Rightarrow> 'a list" where
  "slice_from start xs =
     (let len = int (length xs);
          k = (if start < 0 then max (len + start) 0 else min start len)
      in drop (nat k) xs)"

section \<open>ChatRoom (client/src/components/ChatRoom.tsx)\<close>

record message =
  msg_username :: jstring
  msg_message :: jstring
  msg_timestamp :: jstring

definition MAX_MESSAGES :: int where
  "MAX_MESSAGES = 100"

record chat_room =
  messages :: "message list"
  typingUsers :: "jstring \<rightharpoonup> bool"

text \<open>The three listeners that ChatRoom registers on the socket.\<close>

datatype socket_event =
    Message_history "message list"
  | New_message message
  | Typing_update jstring bool

text \<open>
  \<open>setMessages(prev => [...prev, ...data.messages].slice(-MAX_MESSAGES))\<close>,
  \<open>setMessages(prev => [...prev, data].slice(-MAX_MESSAGES))\<close> and the \<open>typing_update\<close>
  listener, which ignores the component's own user.
\<close>

fun on_socket_event :: "jstring \<Rightarrow> socket_event \<Rightarrow> chat_room \<Rightarrow> chat_room" where
  "on_socket_event username (Message_history batch) st =
     st\<lparr>messages := slice_from (- MAX_MESSAGES) (messages st @ batch)\<rparr>"
| "on_socket_event username (New_message data) st =
     st\<lparr>messages := slice_from (- MAX_MESSAGES) (messages st @ [data])\<rparr>"
| "on_socket_event username (Typing_update who typing) st =
     (if who \<noteq> username then st\<lparr>typingUsers := (typingUsers st)(who \<mapsto> typing)\<rparr> else st)"

section \<open>Requests, responses and the console\<close>

text \<open>
  A handler is modelled as a function of the component state at the moment it is called and of
  the outcome of every request it may issue; it returns the state after the handler and all
  of its promise callbacks have run. The requests handed to \<open>fetch\<close> or \<open>axios\<close> and the
  calls of \<open>console.error\<close> are recorded in the state, in the order they happen. Request
  headers and the \<open>credentials\<close> option are left out.
\<close>

datatype http_method = GET | POST | PUT | DELETE

datatype request = Request http_method jstring "(string \<times> jstring) list"

text \<open>A call \<open>console.error(label, x)\<close>: the label and the message of what is logged.\<close>

type_synonym log_entry = "string \<times> jstring option"

record effects =
  sent :: "request list"
  console :: "log_entry list"

definition fetch :: "request \<Rightarrow> ('a effects_scheme) \<Rightarrow> ('a effects_scheme)" where
  "fetch r st = st\<lparr>sent := sent st @ [r]\<rparr>"

definition console_error :: "string \<Rightarrow> jstring option \<Rightarrow> ('a effects_scheme) \<Rightarrow> ('a effects_scheme)" where
  "console_error label x st = st\<lparr>console := console st @ [(label, x)]\<rparr>"

text \<open>
  The JSON object the backend of the \<open>client\<close> tree answers with: a \<open>success\<close> flag, an
  optional \<open>message\<close> and the data of the endpoint.
\<close>

record 'p api_body =
  body_success :: bool
  body_message :: "jstring option"
  body_data :: 'p

text \<open>
  What a \<open>fetch\<close> ends in: the promise rejects (the message of the error), or a response
  arrives with its \<open>ok\<close> flag and what \<open>response.json()\<close> gives, the message of the parse
  error or the body.
\<close>

datatype 'p fetch_result =
    Rejected jstring
  | Response bool "jstring + 'p api_body"

text \<open>\<open>x || d\<close> on a string that may be undefined: the empty string is falsy.\<close>

definition or_else :: "jstring option \<Rightarrow> jstring \<Rightarrow> jstring" where
  "or_else x d = (case x of None \<Rightarrow> d | Some s \<Rightarrow> if s = [] then d else s)"

text \<open>
  \<open>.then(response => { if (!response.ok) throw new Error(failure); return response.json(); })\<close>:
  the error that reaches \<open>.catch\<close>, or the body that reaches the next \<open>.then\<close>.
\<close>

definition ok_json :: "jstring \<Rightarrow> 'p fetch_result \<Rightarrow> jstring + 'p api_body" where
  "ok_json failure res =
     (case res of
        Rejected e \<Rightarrow> Inl e
      | Response ok parsed \<Rightarrow> if \<not> ok then Inl failure else parsed)"

text \<open>\<open>.then(response => response.json())\<close>: the status of the response is not looked at.\<close>

definition any_json :: "'p fetch_result \<Rightarrow> jstring + 'p api_body" where
  "any_json res = (case res of Rejected e \<Rightarrow> Inl e | Response ok parsed \<Rightarrow> parsed)"

definition network_error :: jstring where
  "network_error = js ''Network error. Please try again.''"

section \<open>FriendsList (src/components/FriendsList.tsx)\<close>

record friend =
  f_username :: jstring
  f_online :: bool
  f_bio :: jstring
  f_avatar :: jstring

text \<open>
  The props of the component: \<open>username\<close> and whether \<open>onFriendSelect\<close> is given. The calls
  of \<open>onFriendSelect\<close> are recorded in \<open>fl_selected\<close>.
\<close>

record friends_list_props =
  username :: jstring
  has_onFriendSelect :: bool

record friends_list = effects +
  fl_friends :: "friend list"
  fl_newFriend :: jstring
  fl_error :: jstring
  fl_success :: jstring
  fl_isLoading :: bool
  fl_suggestions :: "friend list"
  fl_targetUser :: jstring
  fl_isConnected :: "bool option"
  fl_path :: "jstring list"
  fl_selected :: "jstring list"

definition api_friends :: jstring where
  "api_friends = js ''http://localhost:5000/api/friends''"

definition api_suggestions :: jstring where
  "api_suggestions = js ''http://localhost:5000/api/friends/suggestions''"

text \<open>
  \<open>fetchFriends\<close> in two parts: what runs at the call (\<open>setIsLoading(true)\<close> and the
  \<open>fetch\<close>), and the promise chain that runs when the request has ended.
\<close>

definition fetchFriends_start :: "friends_list \<Rightarrow> friends_list" where
  "fetchFriends_start st = fetch (Request GET api_friends []) (st\<lparr>fl_isLoading := True\<rparr>)"

definition fetchFriends_done :: "friend list fetch_result \<Rightarrow> friends_list \<Rightarrow> friends_list" where
  "fetchFriends_done res st =
     (let st' =
        (case ok_json (js ''Failed to fetch friends'') res of
           Inr data \<Rightarrow>
             if body_success data then st\<lparr>fl_friends := body_data data\<rparr>
             else st\<lparr>fl_error := or_else (body_message data) (js ''Failed to load friends'')\<rparr>
         | Inl e \<Rightarrow>
             (console_error ''Error fetching friends:'' (Some e) st)\<lparr>fl_error := network_error\<rparr>)
      in st'\<lparr>fl_isLoading := False\<rparr>)"


definition fetchSuggestions_start :: "friends_list \<Rightarrow> friends_list" where
  "fetchSuggestions_start st = fetch (Request GET api_suggestions []) st"

definition fetchSuggestions_done :: "friend list fetch_result \<Rightarrow> friends_list \<Rightarrow> friends_list" where
  "fetchSuggestions_done res st =
     (case ok_json (js ''Failed to fetch suggestions'') res of
        Inr data \<Rightarrow> if body_success data then st\<lparr>fl_suggestions := body_data data\<rparr> else st
      | Inl e \<Rightarrow> console_error ''Error fetching suggestions:'' (Some e) st)"

text \<open>
  \<open>handleAddFriend\<close>: the form's submit handler. \<open>post\<close>, \<open>fr\<close> and \<open>sg\<close> are the outcomes of
  the POST and of the two refreshing requests that follow a successful one. The
  \<open>.finally\<close> of the POST chain runs before the refreshing requests end.
\<close>

definition handleAddFriend ::
  "friends_list_props \<Rightarrow> unit fetch_result \<Rightarrow> friend list fetch_result \<Rightarrow>
   friend list fetch_result \<Rightarrow> friends_list \<Rightarrow> friends_list" where
  "handleAddFriend props post fr sg st0 =
     (let newFriend = fl_newFriend st0;
          st = st0\<lparr>fl_error := [], fl_success := []\<rparr>
      in if trim newFriend = [] then st\<lparr>fl_error := js ''Please enter a username''\<rparr>
         else if newFriend = username props then
           st\<lparr>fl_error := js ''You can't add yourself as a friend''\<rparr>
         else if \<exists>f \<in> set (fl_friends st0). f_username f = newFriend then
           st\<lparr>fl_error := js ''This user is already your friend''\<rparr>
         else
           (let st1 = fetch (Request POST api_friends [(''username'', newFriend)])
                        (st\<lparr>fl_isLoading := True\<rparr>)
            in case ok_json (js ''Failed to add friend'') post of
                 Inr data \<Rightarrow>
                   if body_success data then
                     (let st2 = st1\<lparr>fl_success := newFriend @ js '' added as a friend'',
                                      fl_newFriend := []\<rparr>;
                          st3 = fetchSuggestions_start (fetchFriends_start st2);
                          st4 = st3\<lparr>fl_isLoading := False\<rparr>
                      in fetchSuggestions_done sg (fetchFriends_done fr st4))
                   else
                     st1\<lparr>fl_error := or_else (body_message data) (js ''Failed to add friend''),
                         fl_isLoading := False\<rparr>
               | Inl e \<Rightarrow>
                   (console_error ''Error adding friend:'' (Some e) st1)
                     \<lparr>fl_error := network_error, fl_isLoading := False\<rparr>))"

text \<open>\<open>handleAddSuggestedFriend\<close>: the \<open>Add\<close> button of a suggestion.\<close>

definition handleAddSuggestedFriend ::
  "jstring \<Rightarrow> unit fetch_result \<Rightarrow> friend list fetch_result \<Rightarrow>
   friend list fetch_result \<Rightarrow> friends_list \<Rightarrow> friends_list" where
  "handleAddSuggestedFriend friendUsername post fr sg st0 =
     (let st1 = fetch (Request POST api_friends [(''username'', friendUsername)])
                  (st0\<lparr>fl_isLoading := True\<rparr>)
      in case ok_json (js ''Failed to add friend'') post of
           Inr data \<Rightarrow>
             if body_success data then
               (let st2 = st1\<lparr>fl_success := friendUsername @ js '' added as a friend''\<rparr>;
                    st3 = fetchSuggestions_start (fetchFriends_start st2);
                    st4 = st3\<lparr>fl_isLoading := False\<rparr>
                in fetchSuggestions_done sg (fetchFriends_done fr st4))
             else
               st1\<lparr>fl_error := or_else (body_message data) (js ''Failed to add friend''),
                   fl_isLoading := False\<rparr>
         | Inl e \<Rightarrow>
             (console_error ''Error adding friend:'' (Some e) st1)
               \<lparr>fl_error := network_error, fl_isLoading := False\<rparr>)"

text \<open>
  \<open>handleRemoveFriend\<close>: \<open>confirmed\<close> is the answer of \<open>window.confirm\<close>. The filter runs on
  the \<open>friends\<close> the handler was called with.
\<close>

definition handleRemoveFriend ::
  "friends_list_props \<Rightarrow> bool \<Rightarrow> jstring \<Rightarrow> unit fetch_result \<Rightarrow>
   friend list fetch_result \<Rightarrow> friends_list \<Rightarrow> friends_list" where
  "handleRemoveFriend props confirmed friendUsername del sg st0 =
     (if \<not> confirmed then st0
      else
        (let st1 = fetch (Request DELETE api_friends [(''username'', friendUsername)])
                     (st0\<lparr>fl_isLoading := True\<rparr>)
         in case ok_json (js ''Failed to remove friend'') del of
              Inr data \<Rightarrow>
                if body_success data then
                  (let st2 = st1\<lparr>fl_friends :=
                                     filter (\<lambda>f. f_username f \<noteq> friendUsername) (fl_friends st0),
                                   fl_success := friendUsername @ js '' removed from friends''\<rparr>;
                       st3 = fetchSuggestions_start st2;
                       st4 = (if has_onFriendSelect props \<and> friendUsername = fl_newFriend st0
                              then st3\<lparr>fl_selected := fl_selected st3 @ [[]]\<rparr> else st3);
                       st5 = st4\<lparr>fl_isLoading := False\<rparr>
                   in fetchSuggestions_done sg st5)
                else
                  st1\<lparr>fl_error := or_else (body_message data) (js ''Failed to remove friend''),
                      fl_isLoading := False\<rparr>
            | Inl e \<Rightarrow>
                (console_error ''Error removing friend:'' (Some e) st1)
                  \<lparr>fl_error := network_error, fl_isLoading := False\<rparr>))"


section \<open>FriendsList, the variant without suggestions (unnamed/part_000)\<close>

text \<open>
  The same component state without the suggestions and the connection check:
  \<open>fl_suggestions\<close>, \<open>fl_targetUser\<close>, \<open>fl_isConnected\<close> and \<open>fl_path\<close> are never read or
  written here. \<open>fetchFriends\<close> is the one above, word for word.
\<close>

definition handleAddFriend_part000 ::
  "friends_list_props \<Rightarrow> unit fetch_result \<Rightarrow> friend list fetch_result \<Rightarrow>
   friends_list \<Rightarrow> friends_list" where
  "handleAddFriend_part000 props post fr st0 =
     (let newFriend = fl_newFriend st0;
          st = st0\<lparr>fl_error := [], fl_success := []\<rparr>
      in if trim newFriend = [] then st\<lparr>fl_error := js ''Please enter a username''\<rparr>
         else if newFriend = username props then
           st\<lparr>fl_error := js ''You can't add yourself as a friend''\<rparr>
         else if \<exists>f \<in> set (fl_friends st0). f_username f = newFriend then
           st\<lparr>fl_error := js ''This user is already your friend''\<rparr>
         else
           (let st1 = fetch (Request POST api_friends [(''username'', newFriend)])
                        (st\<lparr>fl_isLoading := True\<rparr>)
            in case ok_json (js ''Failed to add friend'') post of
                 Inr data \<Rightarrow>
                   if body_success data then
                     (let st2 = st1\<lparr>fl_success := newFriend @ js '' added as a friend'',
                                      fl_newFriend := []\<rparr>;
                          st3 = fetchFriends_start st2;
                          st4 = st3\<lparr>fl_isLoading := False\<rparr>
                      in fetchFriends_done fr st4)
                   else
                     st1\<lparr>fl_error := or_else (body_message data) (js ''Failed to add friend''),
                         fl_isLoading := False\<rparr>
               | Inl e \<Rightarrow>
                   (console_error ''Error adding friend:'' (Some e) st1)
                     \<lparr>fl_error := network_error, fl_isLoading := False\<rparr>))"

definition handleRemoveFriend_part000 ::
  "friends_list_props \<Rightarrow> bool \<Rightarrow> jstring \<Rightarrow> unit fetch_result \<Rightarrow>
   friends_list \<Rightarrow> friends_list" where
  "handleRemoveFriend_part000 props confirmed friendUsername del st0 =
     (if \<not> confirmed then st0
      else
        (let st1 = fetch (Request DELETE api_friends [(''username'', friendUsername)])
                     (st0\<lparr>fl_isLoading := True\<rparr>)
         in case ok_json (js ''Failed to remove friend'') del of
              Inr data \<Rightarrow>
                if body_success data then
                  (let st2 = st1\<lparr>fl_friends :=
                                     filter (\<lambda>f. f_username f \<noteq> friendUsername) (fl_friends st0),
                                   fl_success := friendUsername @ js '' removed from friends''\<rparr>;
                       st3 = (if has_onFriendSelect props \<and> friendUsername = fl_newFriend st0
                              then st2\<lparr>fl_selected := fl_selected st2 @ [[]]\<rparr> else st2)
                   in st3\<lparr>fl_isLoading := False\<rparr>)
                else
                  st1\<lparr>fl_error := or_else (body_message data) (js ''Failed to remove friend''),
                      fl_isLoading := False\<rparr>
            | Inl e \<Rightarrow>
                (console_error ''Error removing friend:'' (Some e) st1)
                  \<lparr>fl_error := network_error, fl_isLoading := False\<rparr>))"

section \<open>Notifications (unnamed/part_000 and unnamed/part_004) and App (client/src/App.tsx)\<close>

record notifications_view = effects +
  nv_notifications :: "jstring list"
  nv_isLoading :: bool
  nv_error :: "jstring option"

definition api_notifications :: jstring where
  "api_notifications = js ''http://localhost:5000/api/notifications''"

text \<open>
  \<open>clearNotifications\<close> of unnamed/part_000: this variant has no \<open>error\<close> state and does not
  touch \<open>isLoading\<close>; a refusal of the server is logged with \<open>data.message\<close>.
\<close>

definition clearNotifications_part000 ::
  "unit fetch_result \<Rightarrow> notifications_view \<Rightarrow> notifications_view" where
  "clearNotifications_part000 res st0 =
     (let st = fetch (Request DELETE api_notifications []) st0
      in case ok_json (js ''Failed to clear notifications'') res of
           Inr data \<Rightarrow>
             if body_success data then st\<lparr>nv_notifications := []\<rparr>
             else console_error ''Failed to clear notifications:'' (body_message data) st
         | Inl e \<Rightarrow> console_error ''Error clearing notifications:'' (Some e) st)"


definition clearNotifications_part004 ::
  "unit fetch_result \<Rightarrow> notifications_view \<Rightarrow> notifications_view" where
  "clearNotifications_part004 res st0 =
     (let st = fetch (Request DELETE api_notifications [])
                 (st0\<lparr>nv_isLoading := True, nv_error := None\<rparr>);
          st' =
            (case ok_json (js ''Failed to clear notifications'') res of
               Inr data \<Rightarrow>
                 if body_success data then st\<lparr>nv_notifications := []\<rparr>
                 else st\<lparr>nv_error :=
                          Some (or_else (body_message data) (js ''Failed to clear notifications''))\<rparr>
             | Inl e \<Rightarrow>
                 (console_error ''Error clearing notifications:'' (Some e) st)
                   \<lparr>nv_error := Some network_error\<rparr>)
      in st'\<lparr>nv_isLoading := False\<rparr>)"

text \<open>
  \<open>clearNotifications\<close> of App:
  \<open>.then(response => response.json()).then(data => data.success && setNotifications([]))\<close>.
  No component of the sources calls it; the notifications tab renders the Notifications
  component, which has the handler above.
\<close>

record app = effects +
  app_notifications :: "jstring list"

definition clearNotifications :: "unit fetch_result \<Rightarrow> app \<Rightarrow> app" where
  "clearNotifications res st0 =
     (let st = fetch (Request DELETE api_notifications []) st0
      in case any_json res of
           Inr data \<Rightarrow> if body_success data then st\<lparr>app_notifications := []\<rparr> else st
         | Inl e \<Rightarrow> console_error ''Error clearing notifications:'' (Some e) st)"

section \<open>Login and Register (client/src/components)\<close>

record user =
  u_username :: jstring
  u_bio :: jstring
  u_avatar :: jstring

text \<open>
  The calls of the \<open>onLogin\<close> prop are recorded in \<open>lg_onLogin\<close>, each with the
  \<open>data.user\<close> it was given (undefined when the body has none).
\<close>

record login = effects +
  lg_username :: jstring
  lg_password :: jstring
  lg_error :: "jstring option"
  lg_isLoading :: bool
  lg_onLogin :: "user option list"

text \<open>
  The \<open>try\<close> block up to \<open>const data = await response.json()\<close>: on a response that is not
  \<open>ok\<close> the body is read and \<open>new Error(errorData.message || failure)\<close> is thrown.
\<close>

definition await_json :: "jstring \<Rightarrow> 'p fetch_result \<Rightarrow> jstring + 'p api_body" where
  "await_json failure res =
     (case res of
        Rejected e \<Rightarrow> Inl e
      | Response ok parsed \<Rightarrow>
          (case parsed of
             Inl e \<Rightarrow> Inl e
           | Inr data \<Rightarrow> if \<not> ok then Inl (or_else (body_message data) failure) else Inr data))"

definition login_handleSubmit :: "user option fetch_result \<Rightarrow> login \<Rightarrow> login" where
  "login_handleSubmit res st0 =
     (let st = st0\<lparr>lg_error := None\<rparr>
      in if trim (lg_username st0) = [] \<or> trim (lg_password st0) = [] then
           st\<lparr>lg_error := Some (js ''Username and password are required'')\<rparr>
         else
           (let st1 = fetch (Request POST (js ''http://localhost:5000/api/login'')
                               [(''username'', trim (lg_username st0)),
                                (''password'', lg_password st0)])
                        (st\<lparr>lg_isLoading := True\<rparr>);
                st2 =
                  (case await_json (js ''Login failed'') res of
                     Inr data \<Rightarrow>
                       if body_success data then
                         st1\<lparr>lg_onLogin := lg_onLogin st1 @ [body_data data],
                             lg_username := [], lg_password := [], lg_error := None\<rparr>
                       else st1\<lparr>lg_error := Some (or_else (body_message data) (js ''Login failed''))\<rparr>
                   | Inl e \<Rightarrow>
                       console_error ''Login error:'' (Some e)
                         (st1\<lparr>lg_error := Some (or_else (Some e) network_error)\<rparr>))
            in st2\<lparr>lg_isLoading := False\<rparr>))"

text \<open>The calls of the \<open>onRegister\<close> prop are counted in \<open>rg_onRegister\<close>.\<close>

record register = effects +
  rg_username :: jstring
  rg_password :: jstring
  rg_confirmPassword :: jstring
  rg_error :: "jstring option"
  rg_isLoading :: bool
  rg_onRegister :: nat

definition register_handleSubmit :: "unit fetch_result \<Rightarrow> register \<Rightarrow> register" where
  "register_handleSubmit res st0 =
     (let st = st0\<lparr>rg_error := None\<rparr>
      in if trim (rg_username st0) = [] \<or> trim (rg_password st0) = []
            \<or> trim (rg_confirmPassword st0) = [] then
           st\<lparr>rg_error := Some (js ''All fields are required'')\<rparr>
         else if rg_password st0 \<noteq> rg_confirmPassword st0 then
           st\<lparr>rg_error := Some (js ''Passwords do not match'')\<rparr>
         else if length (rg_username st0) < 3 then
           st\<lparr>rg_error := Some (js ''Username must be at least 3 characters'')\<rparr>
         else if length (rg_password st0) < 6 then
           st\<lparr>rg_error := Some (js ''Password must be at least 6 characters'')\<rparr>
         else
           (let st1 = fetch (Request POST (js ''http://localhost:5000/api/register'')
                               [(''username'', trim (rg_username st0)),
                                (''password'', rg_password st0)])
                        (st\<lparr>rg_isLoading := True\<rparr>);
                st2 =
                  (case await_json (js ''Registration failed'') res of
                     Inr data \<Rightarrow>
                       if body_success data then
                         st1\<lparr>rg_username := [], rg_password := [], rg_confirmPassword := [],
                             rg_error := None, rg_onRegister := Suc (rg_onRegister st1)\<rparr>
                       else
                         st1\<lparr>rg_error :=
                               Some (or_else (body_message data) (js ''Registration failed''))\<rparr>
                   | Inl e \<Rightarrow>
                       console_error ''Registration error:'' (Some e)
                         (st1\<lparr>rg_error := Some (or_else (Some e) network_error)\<rparr>))
            in st2\<lparr>rg_isLoading := False\<rparr>))"

section \<open>Profile (src/components/Profile.tsx)\<close>



section \<open>The contexts of the second client tree (ChatContext.tsx, unnamed/part_007)\<close>

text \<open>
  \<open>axios\<close> resolves with the data of a response whose status is 2xx and rejects on every
  other status and on a network failure (the message of the error).
\<close>

datatype 'd axios_result = Resolved 'd | Axios_rejected jstring

text \<open>The user of \<open>useAuth\<close>.\<close>

record auth_user =
  au_id :: jstring
  au_username :: jstring
  au_email :: jstring
  au_profilePic :: jstring



text \<open>\<open>ChatProvider\<close> (frontend/src/contexts/ChatContext.tsx).\<close>

datatype presence = Online | Offline

record ctx_friend =
  fr_id :: jstring
  fr_username :: jstring
  fr_profilePic :: jstring
  fr_status :: presence

record ctx_message =
  m_id :: jstring
  m_senderId :: jstring
  m_receiverId :: jstring
  m_content :: jstring
  m_timestamp :: jstring

text \<open>
  \<open>messages\<close> is a \<open>Record<string, Message[]>\<close> held in a plain object, \<open>{}\<close> at first and an
  object literal after every update: \<open>cc_messages\<close> maps its own keys to their lists.
\<close>

record chat_context = effects +
  cc_friends :: "ctx_friend list"
  cc_friendRequests :: "ctx_friend list"
  cc_messages :: "jstring \<rightharpoonup> ctx_message list"
  cc_currentChat :: "ctx_friend option"

text \<open>
  Reading \<open>obj[key]\<close> on a plain object finds the own property, and for a key the object does
  not have, the property of that name that \<open>Object.prototype\<close> has: a function, or the
  prototype itself for \<open>__proto__\<close>. Every other key reads as undefined.
\<close>

definition object_prototype_keys :: "jstring list" where
  "object_prototype_keys =
     [js ''constructor'', js ''__proto__'', js ''hasOwnProperty'', js ''isPrototypeOf'',
      js ''propertyIsEnumerable'', js ''toLocaleString'', js ''toString'', js ''valueOf'',
      js ''__defineGetter__'', js ''__defineSetter__'', js ''__lookupGetter__'',
      js ''__lookupSetter__'']"

datatype 'a property = Own 'a | Inherited | Undefined

definition get_property :: "(jstring \<rightharpoonup> 'a) \<Rightarrow> jstring \<Rightarrow> 'a property" where
  "get_property obj key =
     (case obj key of
        Some v \<Rightarrow> Own v
      | None \<Rightarrow> if key \<in> set object_prototype_keys then Inherited else Undefined)"

datatype js_error = TypeError

text \<open>The \<open>friend_request\<close> and \<open>friend_status\<close> listeners.\<close>

datatype ctx_event =
    Friend_request ctx_friend
  | Friend_status jstring presence

definition chatId_of :: "auth_user option \<Rightarrow> ctx_message \<Rightarrow> jstring" where
  "chatId_of user msg =
     (if (case user of None \<Rightarrow> False | Some u \<Rightarrow> m_senderId msg = au_id u)
      then m_receiverId msg else m_senderId msg)"

text \<open>
  The \<open>message\<close> listener: \<open>[...(prev[chatId] || []), message]\<close>. An own list is spread and
  an undefined read gives the empty list; an inherited property is truthy and not iterable,
  so the spread throws a TypeError and the state is not updated.
\<close>

definition on_message ::
  "auth_user option \<Rightarrow> ctx_message \<Rightarrow> chat_context \<Rightarrow> js_error + chat_context" where
  "on_message user msg st =
     (let chatId = chatId_of user msg
      in case get_property (cc_messages st) chatId of
           Own ms \<Rightarrow> Inr (st\<lparr>cc_messages := (cc_messages st)(chatId \<mapsto> ms @ [msg])\<rparr>)
         | Undefined \<Rightarrow> Inr (st\<lparr>cc_messages := (cc_messages st)(chatId \<mapsto> [msg])\<rparr>)
         | Inherited \<Rightarrow> Inl TypeError)"

fun on_ctx_event :: "auth_user option \<Rightarrow> ctx_event \<Rightarrow> chat_context \<Rightarrow> chat_context" where
  "on_ctx_event user (Friend_request req) st =
     st\<lparr>cc_friendRequests := cc_friendRequests st @ [req]\<rparr>"
| "on_ctx_event user (Friend_status userId status) st =
     st\<lparr>cc_friends :=
          map (\<lambda>friend. if fr_id friend = userId then friend\<lparr>fr_status := status\<rparr> else friend)
            (cc_friends st)\<rparr>"

text \<open>
  \<open>removeFriend\<close>: the state after the call and what the returned promise ends in, \<open>Inl\<close> the
  message of the error it rejects with.
\<close>

definition removeFriend ::
  "auth_user option \<Rightarrow> jstring \<Rightarrow> unit axios_result \<Rightarrow> chat_context \<Rightarrow>
   chat_context \<times> (jstring + unit)" where
  "removeFriend user userId res st0 =
     (case user of
        None \<Rightarrow> (st0, Inr ())
      | Some u \<Rightarrow>
          (let st = fetch (Request DELETE (js ''http://localhost:5000/api/friends/'' @ userId) []) st0
           in case res of
                Resolved d \<Rightarrow>
                  (let st1 = st\<lparr>cc_friends := filter (\<lambda>friend. fr_id friend \<noteq> userId) (cc_friends st)\<rparr>;
                       st2 = (case cc_currentChat st0 of
                                None \<Rightarrow> st1
                              | Some c \<Rightarrow> if fr_id c = userId then st1\<lparr>cc_currentChat := None\<rparr> else st1)
                   in (st2, Inr ()))
              | Axios_rejected e \<Rightarrow>
                  (console_error ''Failed to remove friend:'' (Some e) st,
                   Inl (js ''Failed to remove friend''))))"

section \<open>Outcomes of a request\<close>



text \<open>The server answered with success: an \<open>ok\<close> response whose body has \<open>success\<close> set.\<close>

definition responded_success :: "'p fetch_result \<Rightarrow> bool" where
  "responded_success res =
     (case res of
        Rejected e \<Rightarrow> False
      | Response ok parsed \<Rightarrow> (case parsed of Inl e \<Rightarrow> False | Inr data \<Rightarrow> ok \<and> body_success data))"

text \<open>The body of the response has \<open>success\<close> set, whatever its status.\<close>

definition body_says_success :: "'p fetch_result \<Rightarrow> bool" where
  "body_says_success res =
     (case res of
        Rejected e \<Rightarrow> False
      | Response ok parsed \<Rightarrow> (case parsed of Inl e \<Rightarrow> False | Inr data \<Rightarrow> body_success data))"









text \<open>The chat id is a key the \<open>message\<close> listener reads a list or nothing from.\<close>

definition plain_key :: "(jstring \<rightharpoonup> 'a) \<Rightarrow> jstring \<Rightarrow> bool" where
  "plain_key obj key \<longleftrightarrow> get_property obj key \<noteq> Inherited"

section \<open>Sample states\<close>

definition sample_message :: message where
  "sample_message =
     \<lparr>msg_username = js ''bob'', msg_message = js ''hi'',
      msg_timestamp = js ''2025-03-02T19:00:00''\<rparr>"

definition full_room :: chat_room where
  "full_room = \<lparr>messages = replicate 100 sample_message, typingUsers = Map.empty\<rparr>"

definition blank_login :: login where
  "blank_login =
     \<lparr>sent = [], console = [], lg_username = js ''   '', lg_password = js ''secret'',
      lg_error = None, lg_isLoading = False, lg_onLogin = []\<rparr>"

definition blank_register :: register where
  "blank_register =
     \<lparr>sent = [], console = [], rg_username = js ''alice'', rg_password = js ''secret1'',
      rg_confirmPassword = [0x0009, 0x00A0], rg_error = None, rg_isLoading = False,
      rg_onRegister = 0\<rparr>"

text \<open>Answers of the server to a request without data.\<close>

definition accepted :: "unit fetch_result" where
  "accepted = Response True (Inr \<lparr>body_success = True, body_message = None, body_data = ()\<rparr>)"

definition refused :: "unit fetch_result" where
  "refused =
     Response True
       (Inr \<lparr>body_success = False, body_message = Some (js ''Already friends''), body_data = ()\<rparr>)"

definition failed_with_success_body :: "unit fetch_result" where
  "failed_with_success_body =
     Response False (Inr \<lparr>body_success = True, body_message = None, body_data = ()\<rparr>)"


text \<open>Alice's friends list, with \<open>bob\<close> typed into the form.\<close>

definition alice_props :: friends_list_props where
  "alice_props = \<lparr>username = js ''alice'', has_onFriendSelect = True\<rparr>"

definition bob :: friend where
  "bob = \<lparr>f_username = js ''bob'', f_online = True, f_bio = [], f_avatar = []\<rparr>"

definition carol :: friend where
  "carol = \<lparr>f_username = js ''carol'', f_online = False, f_bio = [], f_avatar = []\<rparr>"

definition alice_friends_list :: friends_list where
  "alice_friends_list =
     \<lparr>sent = [], console = [], fl_friends = [bob, carol], fl_newFriend = js ''bob'',
      fl_error = [], fl_success = [], fl_isLoading = False, fl_suggestions = [bob],
      fl_targetUser = js ''carol'', fl_isConnected = None, fl_path = [], fl_selected = []\<rparr>"


definition short_register :: register where
  "short_register =
     \<lparr>sent = [], console = [], rg_username = js ''ab'', rg_password = js ''abc'',
      rg_confirmPassword = js ''abd'', rg_error = None, rg_isLoading = False,
      rg_onRegister = 0\<rparr>"


definition two_notifications :: notifications_view where
  "two_notifications =
     \<lparr>sent = [], console = [], nv_notifications = [js ''bob added you'', js ''carol added you''],
      nv_isLoading = False, nv_error = None\<rparr>"

definition app_two_notifications :: app where
  "app_two_notifications =
     \<lparr>sent = [], console = [],
      app_notifications = [js ''bob added you'', js ''carol added you'']\<rparr>"


text \<open>The second client tree: Alice with the friends \<open>u1\<close> and \<open>u2\<close>.\<close>

definition alice_user :: auth_user where
  "alice_user =
     \<lparr>au_id = js ''u0'', au_username = js ''alice'', au_email = js ''alice@example.org'',
      au_profilePic = []\<rparr>"

definition ctx_bob :: ctx_friend where
  "ctx_bob = \<lparr>fr_id = js ''u1'', fr_username = js ''bob'', fr_profilePic = js ''bob.png'',
     fr_status = Offline\<rparr>"

definition ctx_carol :: ctx_friend where
  "ctx_carol = \<lparr>fr_id = js ''u2'', fr_username = js ''carol'', fr_profilePic = js ''carol.png'',
     fr_status = Offline\<rparr>"

definition alice_context :: chat_context where
  "alice_context =
     \<lparr>sent = [], console = [], cc_friends = [ctx_bob, ctx_carol], cc_friendRequests = [],
      cc_messages = Map.empty, cc_currentChat = None\<rparr>"

definition greeting :: ctx_message where
  "greeting =
     \<lparr>m_id = js ''m1'', m_senderId = js ''u1'', m_receiverId = js ''u0'', m_content = js ''hi'',
      m_timestamp = js ''2025-03-02T19:00:00''\<rparr>"

definition reply :: ctx_message where
  "reply =
     \<lparr>m_id = js ''m2'', m_senderId = js ''u0'', m_receiverId = js ''u1'', m_content = js ''hello'',
      m_timestamp = js ''2025-03-02T19:01:00''\<rparr>"

definition to_constructor :: ctx_message where
  "to_constructor =
     \<lparr>m_id = js ''m3'', m_senderId = js ''u0'', m_receiverId = js ''constructor'',
      m_content = js ''hi'', m_timestamp = js ''2025-03-02T19:02:00''\<rparr>"

definition from_constructor :: ctx_message where
  "from_constructor =
     \<lparr>m_id = js ''m4'', m_senderId = js ''constructor'', m_receiverId = js ''u0'',
      m_content = js ''hi'', m_timestamp = js ''2025-03-02T19:03:00''\<rparr>"


definition small_room :: chat_room where
  "small_room = \<lparr>messages = [sample_message], typingUsers = Map.empty\<rparr>"

section \<open>Properties\<close>

lemma slice_from_neg: "0 < n \<Longrightarrow> slice_from (- n) xs = drop (length xs - nat n) xs"
proof -
  assume n: "0 < n"
  have "nat (max (int (length xs) + - n) 0) = length xs - nat n"
    using n by (simp add: max_def) linarith
  with n show ?thesis
    by (simp add: slice_from_def Let_def)
qed

lemma length_slice_from_neg: "0 < n \<Longrightarrow> length (slice_from (- n) xs) \<le> nat n"
  by (simp add: slice_from_neg)

lemma last_100: "slice_from (- MAX_MESSAGES) xs = drop (length xs - 100) xs"
  by (simp add: slice_from_neg MAX_MESSAGES_def)

lemma length_last_100: "length (slice_from (- MAX_MESSAGES) xs) \<le> 100"
  using length_slice_from_neg [of 100 xs] by (simp add: MAX_MESSAGES_def)

lemma messages_step_bounded:
  "length (messages st) \<le> 100 \<Longrightarrow> length (messages (on_socket_event u ev st)) \<le> 100"
  by (cases ev) (simp_all add: length_last_100)

lemma messages_run_bounded:
  "length (messages st) \<le> 100 \<Longrightarrow>
   length (messages (foldl (\<lambda>s ev. on_socket_event u ev s) st evs)) \<le> 100"
  by (induction evs arbitrary: st) (simp_all add: messages_step_bounded)

lemma drop_keeps_tail:
  "length ys \<le> n \<Longrightarrow> \<exists>pre. drop (length (xs @ ys) - n) (xs @ ys) = pre @ ys"
  by (rule exI [of _ "drop (length (xs @ ys) - n) xs"]) simp

lemma last_of_last:
  "drop (length (drop (length ys - n) ys @ zs) - n) (drop (length ys - n) ys @ zs)
     = drop (length (ys @ zs) - n) (ys @ zs)"
proof (cases "n \<le> length ys")
  case True
  then have "length ys - (length ys - n) = n"
    and "length ys + length zs - n = (length ys - n) + length zs"
    by simp_all
  then show ?thesis
    by (simp add: add.commute)
next
  case False
  then show ?thesis
    by simp
qed

lemma new_message_twice:
  "messages (on_socket_event u (New_message m) (on_socket_event u (New_message m) st))
     = drop (length (messages st @ [m, m]) - 100) (messages st @ [m, m])"
proof -
  have "messages (on_socket_event u (New_message m) (on_socket_event u (New_message m) st))
     = drop (length (drop (length (messages st @ [m]) - 100) (messages st @ [m]) @ [m]) - 100)
          (drop (length (messages st @ [m]) - 100) (messages st @ [m]) @ [m])"
    by (simp add: last_100 del: length_append drop_append)
  also have "\<dots> = drop (length ((messages st @ [m]) @ [m]) - 100) ((messages st @ [m]) @ [m])"
    by (rule last_of_last)
  finally show ?thesis
    by simp
qed

lemma ok_json_success:
  "responded_success res \<Longrightarrow> \<exists>data. ok_json failure res = Inr data \<and> body_success data"
  by (auto simp add: responded_success_def ok_json_def split: fetch_result.splits sum.splits)

lemma ok_json_no_success:
  "\<not> responded_success res \<Longrightarrow> ok_json failure res = Inr data \<Longrightarrow> \<not> body_success data"
  by (auto simp add: responded_success_def ok_json_def
      split: fetch_result.splits sum.splits if_splits)



lemma fetchSuggestions_done_friends [simp]:
  "fl_friends (fetchSuggestions_done sg st) = fl_friends st"
  by (simp add: fetchSuggestions_done_def console_error_def split: sum.split)

lemma fetchSuggestions_done_sent [simp]:
  "sent (fetchSuggestions_done sg st) = sent st"
  by (simp add: fetchSuggestions_done_def console_error_def split: sum.split)

lemma handleRemoveFriend_friends:
  "fl_friends (handleRemoveFriend props True name del sg st)
     = (if responded_success del then filter (\<lambda>f. f_username f \<noteq> name) (fl_friends st)
        else fl_friends st)"
proof (cases "responded_success del")
  case True
  then obtain data
    where "ok_json (js ''Failed to remove friend'') del = Inr data" and "body_success data"
    using ok_json_success by blast
  with True show ?thesis
    by (simp add: handleRemoveFriend_def Let_def fetch_def fetchSuggestions_start_def)
next
  case False
  then show ?thesis
    by (auto simp add: handleRemoveFriend_def Let_def fetch_def console_error_def
        dest: ok_json_no_success split: sum.split)
qed

lemma handleRemoveFriend_sent:
  "sent (handleRemoveFriend props True name del sg st)
     = sent st @ Request DELETE api_friends [(''username'', name)]
         # (if responded_success del then [Request GET api_suggestions []] else [])"
proof (cases "responded_success del")
  case True
  then obtain data
    where "ok_json (js ''Failed to remove friend'') del = Inr data" and "body_success data"
    using ok_json_success by blast
  with True show ?thesis
    by (simp add: handleRemoveFriend_def Let_def fetch_def fetchSuggestions_start_def)
next
  case False
  then show ?thesis
    by (auto simp add: handleRemoveFriend_def Let_def fetch_def console_error_def
        dest: ok_json_no_success split: sum.split)
qed

lemma handleRemoveFriend_part000_friends:
  "fl_friends (handleRemoveFriend_part000 props True name del st)
     = (if responded_success del then filter (\<lambda>f. f_username f \<noteq> name) (fl_friends st)
        else fl_friends st)"
proof (cases "responded_success del")
  case True
  then obtain data
    where "ok_json (js ''Failed to remove friend'') del = Inr data" and "body_success data"
    using ok_json_success by blast
  with True show ?thesis
    by (simp add: handleRemoveFriend_part000_def Let_def fetch_def)
next
  case False
  then show ?thesis
    by (auto simp add: handleRemoveFriend_part000_def Let_def fetch_def console_error_def
        dest: ok_json_no_success split: sum.split)
qed

lemma handleRemoveFriend_part000_sent:
  "sent (handleRemoveFriend_part000 props True name del st)
     = sent st @ [Request DELETE api_friends [(''username'', name)]]"
  by (simp add: handleRemoveFriend_part000_def Let_def fetch_def console_error_def
      split: sum.split)

lemma removeFriend_friends:
  "cc_friends (fst (removeFriend (Some u) uid res ctx))
     = (case res of
          Resolved d \<Rightarrow> filter (\<lambda>friend. fr_id friend \<noteq> uid) (cc_friends ctx)
        | Axios_rejected e \<Rightarrow> cc_friends ctx)"
  by (simp add: removeFriend_def Let_def fetch_def console_error_def
      split: axios_result.split option.split)

lemma removeFriend_sent:
  "sent (fst (removeFriend (Some u) uid res ctx))
     = sent ctx @ [Request DELETE (js ''http://localhost:5000/api/friends/'' @ uid) []]"
  by (simp add: removeFriend_def Let_def fetch_def console_error_def
      split: axios_result.split option.split)
















subsection \<open>C1: the message list of ChatRoom holds at most 100 entries\<close>

text \<open>
  Claim C1. After a \<open>message_history\<close> and after a \<open>new_message\<close> event the messages of
  ChatRoom are the last entries of the previous messages followed by what arrived, at most
  \<open>MAX_MESSAGES = 100\<close> of them; this holds from every previous state. So a list of at
  most 100 messages stays so along every sequence of socket events.
\<close>

theorem chat_room_messages_bounded:
  "length (messages (on_socket_event u (Message_history batch) st)) \<le> 100
   \<and> messages (on_socket_event u (Message_history batch) st)
       = drop (length (messages st @ batch) - 100) (messages st @ batch)
   \<and> length (messages (on_socket_event u (New_message m) st)) \<le> 100
   \<and> messages (on_socket_event u (New_message m) st)
       = drop (length (messages st @ [m]) - 100) (messages st @ [m])
   \<and> (length (messages st) \<le> 100 \<longrightarrow>
        length (messages (foldl (\<lambda>s ev. on_socket_event u ev s) st evs)) \<le> 100)"
proof -
  have "length (messages (on_socket_event u (Message_history batch) st)) \<le> 100"
    and "length (messages (on_socket_event u (New_message m) st)) \<le> 100"
    by (simp_all add: length_last_100)
  moreover have "messages (on_socket_event u (Message_history batch) st)
       = drop (length (messages st @ batch) - 100) (messages st @ batch)"
    and "messages (on_socket_event u (New_message m) st)
       = drop (length (messages st @ [m]) - 100) (messages st @ [m])"
    by (simp_all add: last_100 del: length_append drop_append)
  ultimately show ?thesis
    using messages_run_bounded by blast
qed

theorem chat_room_messages_bounded_witness:
  "length (messages full_room) \<le> 100
   \<and> length (messages (on_socket_event (js ''alice'') (New_message sample_message) full_room)) \<le> 100
   \<and> length (messages (on_socket_event (js ''alice'')
         (Message_history [sample_message, sample_message]) full_room)) \<le> 100
   \<and> length (messages (foldl (\<lambda>s ev. on_socket_event (js ''alice'') ev s) full_room
         [New_message sample_message, Message_history [sample_message]])) \<le> 100"
proof -
  have "length (messages full_room) \<le> 100"
    by (simp add: full_room_def)
  then show ?thesis
    using chat_room_messages_bounded [of "js ''alice''" "[sample_message, sample_message]"
        full_room sample_message "[New_message sample_message, Message_history [sample_message]]"]
    by blast
qed

subsection \<open>C2: what a failed request leaves on the screen\<close>




subsection \<open>C3: a friend already in the list is not added again by the form\<close>

text \<open>
  Claim C3, as the code has it. In the add-friend form (\<open>handleAddFriend\<close>, both variants of
  FriendsList), submitting the username of a friend already in the list records no request
  and leaves the friends list unchanged; the error is \<open>This user is already your friend\<close>
  when the name is not blank and is not the logged-in username, the two checks that come
  first.
\<close>

theorem duplicate_friend_rejected_in_form:
  assumes "f \<in> set (fl_friends st)" and "f_username f = u" and "fl_newFriend st = u"
  shows "sent (handleAddFriend props post fr sg st) = sent st
       \<and> fl_friends (handleAddFriend props post fr sg st) = fl_friends st
       \<and> sent (handleAddFriend_part000 props post fr st) = sent st
       \<and> fl_friends (handleAddFriend_part000 props post fr st) = fl_friends st
       \<and> (trim u \<noteq> [] \<and> u \<noteq> username props \<longrightarrow>
             handleAddFriend props post fr sg st
               = st\<lparr>fl_error := js ''This user is already your friend'', fl_success := []\<rparr>
           \<and> handleAddFriend_part000 props post fr st
               = st\<lparr>fl_error := js ''This user is already your friend'', fl_success := []\<rparr>)"
  using assms by (auto simp add: handleAddFriend_def handleAddFriend_part000_def Let_def)

theorem duplicate_friend_rejected_in_form_witness:
  "bob \<in> set (fl_friends alice_friends_list)
   \<and> f_username bob = fl_newFriend alice_friends_list
   \<and> handleAddFriend alice_props accepted (Rejected []) (Rejected []) alice_friends_list
       = alice_friends_list\<lparr>fl_error := js ''This user is already your friend'', fl_success := []\<rparr>
   \<and> sent (handleAddFriend alice_props accepted (Rejected []) (Rejected []) alice_friends_list) = []
   \<and> fl_friends (handleAddFriend_part000 alice_props accepted (Rejected []) alice_friends_list)
       = [bob, carol]"
proof -
  have a: "bob \<in> set (fl_friends alice_friends_list)"
    by (simp add: alice_friends_list_def)
  have b: "f_username bob = js ''bob''"
    by (simp add: bob_def)
  have c: "fl_newFriend alice_friends_list = js ''bob''"
    by (simp add: alice_friends_list_def)
  have d: "trim (js ''bob'') \<noteq> []"
    by (simp add: trim_def js_def is_white_space_def)
  have e: "js ''bob'' \<noteq> username alice_props"
    by (simp add: alice_props_def js_def)
  have f: "sent alice_friends_list = []" "fl_friends alice_friends_list = [bob, carol]"
    by (simp_all add: alice_friends_list_def)
  show ?thesis
    using a b c d e f
      duplicate_friend_rejected_in_form [OF a b c, where props = alice_props
        and post = accepted and fr = "Rejected []" and sg = "Rejected []"]
    by simp
qed

text \<open>
  The claim as written, for every path that adds a friend, fails on the \<open>Add\<close> button of a
  suggestion (\<open>handleAddSuggestedFriend\<close>): \<open>bob\<close> is in Alice's friends list and still among
  the suggestions, and the button sends the POST.
\<close>

theorem suggested_friend_posts_duplicate:
  "bob \<in> set (fl_friends alice_friends_list)
   \<and> f_username bob = js ''bob''
   \<and> sent alice_friends_list = []
   \<and> sent (handleAddSuggestedFriend (js ''bob'') refused (Rejected []) (Rejected [])
        alice_friends_list)
       = [Request POST api_friends [(''username'', js ''bob'')]]
   \<and> fl_error (handleAddSuggestedFriend (js ''bob'') refused (Rejected []) (Rejected [])
        alice_friends_list) = js ''Already friends''"
  by (simp add: alice_friends_list_def bob_def handleAddSuggestedFriend_def refused_def
      ok_json_def or_else_def fetch_def Let_def js_def)

subsection \<open>C4: blank credentials are stopped before any request\<close>

text \<open>
  Claim C4. When the username or the password trims to the empty string, the submit handler
  of Login only sets the error \<open>Username and password are required\<close>: no request is sent and
  nothing else of the state changes, whatever the network would answer. The submit handler
  of Register does the same with \<open>All fields are required\<close> when the username, the password
  or the confirmation trims to the empty string.
\<close>

theorem empty_credentials_blocked:
  "(trim (lg_username st) = [] \<or> trim (lg_password st) = [] \<longrightarrow>
      login_handleSubmit res st
        = st\<lparr>lg_error := Some (js ''Username and password are required'')\<rparr>)
   \<and> (trim (rg_username rs) = [] \<or> trim (rg_password rs) = []
        \<or> trim (rg_confirmPassword rs) = [] \<longrightarrow>
      register_handleSubmit res' rs = rs\<lparr>rg_error := Some (js ''All fields are required'')\<rparr>)"
  by (simp add: login_handleSubmit_def register_handleSubmit_def Let_def)

theorem empty_credentials_blocked_witness:
  "trim (lg_username blank_login) = []
   \<and> lg_error (login_handleSubmit (Rejected []) blank_login)
       = Some (js ''Username and password are required'')
   \<and> sent (login_handleSubmit (Rejected []) blank_login) = []
   \<and> trim (rg_confirmPassword blank_register) = []
   \<and> rg_error (register_handleSubmit (Rejected []) blank_register)
       = Some (js ''All fields are required'')
   \<and> sent (register_handleSubmit (Rejected []) blank_register) = []"
proof -
  have a: "trim (lg_username blank_login) = []"
    by (simp add: blank_login_def trim_def js_def is_white_space_def)
  have b: "trim (rg_confirmPassword blank_register) = []"
    by (simp add: blank_register_def trim_def is_white_space_def)
  from a b show ?thesis
    using empty_credentials_blocked [of blank_login "Rejected []" blank_register "Rejected []"]
    by (simp add: blank_login_def blank_register_def)
qed

subsection \<open>C5: incoming messages are appended without deduplication\<close>

lemma new_message_appended:
  "messages (on_socket_event u (New_message m) st)
     = drop (length (messages st @ [m]) - 100) (messages st @ [m])
   \<and> (\<exists>pre. messages (on_socket_event u (New_message m) st) = pre @ [m])
   \<and> messages (on_socket_event u (New_message m) (on_socket_event u (New_message m) st))
     = drop (length (messages st @ [m, m]) - 100) (messages st @ [m, m])
   \<and> (\<exists>pre. messages (on_socket_event u (New_message m) (on_socket_event u (New_message m) st))
        = pre @ [m, m])"
proof -
  have a: "messages (on_socket_event u (New_message m) st)
     = drop (length (messages st @ [m]) - 100) (messages st @ [m])"
    by (simp add: last_100 del: length_append drop_append)
  have b: "\<exists>pre. messages (on_socket_event u (New_message m) st) = pre @ [m]"
    unfolding a by (rule drop_keeps_tail) simp
  have c: "\<exists>pre. messages (on_socket_event u (New_message m) (on_socket_event u (New_message m) st))
        = pre @ [m, m]"
    unfolding new_message_twice by (rule drop_keeps_tail) simp
  from a b c new_message_twice show ?thesis
    by blast
qed

lemma chatId_of_user:
  "chatId_of (Some me) msg
     = (if m_senderId msg = au_id me then m_receiverId msg else m_senderId msg)"
  and chatId_of_no_user: "chatId_of None msg = m_senderId msg"
  by (simp_all add: chatId_of_def)

lemma on_message_appended:
  assumes "plain_key (cc_messages ctx) (chatId_of user msg)"
  shows "on_message user msg ctx
     = Inr (ctx\<lparr>cc_messages := (cc_messages ctx)
              (chatId_of user msg \<mapsto>
                 (case cc_messages ctx (chatId_of user msg) of None \<Rightarrow> [] | Some ms \<Rightarrow> ms)
                   @ [msg])\<rparr>)"
  using assms
  by (simp add: on_message_def plain_key_def get_property_def Let_def split: option.splits if_splits)

lemma on_message_twice:
  assumes "on_message user msg ctx = Inr ctx'"
  shows "on_message user msg ctx'
     = Inr (ctx'\<lparr>cc_messages := (cc_messages ctx')
              (chatId_of user msg \<mapsto>
                 (case cc_messages ctx (chatId_of user msg) of None \<Rightarrow> [] | Some ms \<Rightarrow> ms)
                   @ [msg, msg])\<rparr>)"
  using assms
  by (auto simp add: on_message_def get_property_def Let_def split: option.splits if_splits)

text \<open>
  Claim C5. The \<open>new_message\<close> listener of ChatRoom puts the received message at the end of
  the list, whatever the list holds, and keeps the last 100 entries (\<open>new_message_appended\<close>).
  The \<open>message\<close> listener of ChatProvider appends the message to the list of its chat, the
  receiver's when the user sent it and the sender's otherwise, when the chat id is a key of
  \<open>messages\<close> or reads as undefined (\<open>on_message_appended\<close>, \<open>on_message_twice\<close>). It does
  not append for every event, as the claim has it: \<open>messages\<close> is a plain object, and for a
  chat id that names a property of \<open>Object.prototype\<close> and is not yet a key, here
  \<open>constructor\<close>, the listener throws instead, for a message the user sent and for one the
  user received. A reply to \<open>u1\<close> is appended under \<open>u1\<close>.
\<close>

theorem message_listener_throws_on_inherited_key:
  "cc_messages alice_context (js ''constructor'') = None
   \<and> au_id alice_user = js ''u0''
   \<and> m_senderId to_constructor = js ''u0''
   \<and> m_receiverId to_constructor = js ''constructor''
   \<and> on_message (Some alice_user) to_constructor alice_context = Inl TypeError
   \<and> m_senderId from_constructor = js ''constructor''
   \<and> on_message (Some alice_user) from_constructor alice_context = Inl TypeError
   \<and> on_message (Some alice_user) reply alice_context
       = Inr (alice_context\<lparr>cc_messages := (cc_messages alice_context)(js ''u1'' \<mapsto> [reply])\<rparr>)"
  by (simp add: on_message_def get_property_def chatId_of_def object_prototype_keys_def
      alice_context_def alice_user_def to_constructor_def from_constructor_def reply_def js_def
      Let_def)

subsection \<open>C6: a status event changes the status of the matching friends and nothing else\<close>

text \<open>
  Claim C6. A \<open>friend_status\<close> event changes only the friends list of ChatProvider. The
  list keeps its length; at every position a friend with another id is unchanged and a
  friend with the id of the event is the same record with the new status, so the ids, the
  usernames and the profile pictures are unchanged, position by position. When no friend has
  the id, the state is unchanged.
\<close>

theorem friend_status_changes_only_status:
  "on_ctx_event user (Friend_status uid s) st
     = st\<lparr>cc_friends := cc_friends (on_ctx_event user (Friend_status uid s) st)\<rparr>
   \<and> length (cc_friends (on_ctx_event user (Friend_status uid s) st)) = length (cc_friends st)
   \<and> (\<forall>i < length (cc_friends st).
        (fr_id (cc_friends st ! i) \<noteq> uid \<longrightarrow>
           cc_friends (on_ctx_event user (Friend_status uid s) st) ! i = cc_friends st ! i)
      \<and> (fr_id (cc_friends st ! i) = uid \<longrightarrow>
           cc_friends (on_ctx_event user (Friend_status uid s) st) ! i
             = (cc_friends st ! i)\<lparr>fr_status := s\<rparr>))
   \<and> map fr_id (cc_friends (on_ctx_event user (Friend_status uid s) st))
       = map fr_id (cc_friends st)
   \<and> map fr_username (cc_friends (on_ctx_event user (Friend_status uid s) st))
       = map fr_username (cc_friends st)
   \<and> map fr_profilePic (cc_friends (on_ctx_event user (Friend_status uid s) st))
       = map fr_profilePic (cc_friends st)
   \<and> ((\<forall>f \<in> set (cc_friends st). fr_id f \<noteq> uid) \<longrightarrow>
        on_ctx_event user (Friend_status uid s) st = st)"
proof -
  have "(\<forall>f \<in> set (cc_friends st). fr_id f \<noteq> uid) \<longrightarrow>
      map (\<lambda>friend. if fr_id friend = uid then friend\<lparr>fr_status := s\<rparr> else friend) (cc_friends st)
        = cc_friends st"
    by (simp add: map_idI)
  then show ?thesis
    by (simp add: comp_def)
qed

theorem friend_status_changes_only_status_witness:
  "cc_friends alice_context = [ctx_bob, ctx_carol]
   \<and> cc_friends (on_ctx_event (Some alice_user) (Friend_status (js ''u1'') Online) alice_context) ! 0
       = ctx_bob\<lparr>fr_status := Online\<rparr>
   \<and> cc_friends (on_ctx_event (Some alice_user) (Friend_status (js ''u1'') Online) alice_context) ! 1
       = ctx_carol
   \<and> length (cc_friends (on_ctx_event (Some alice_user) (Friend_status (js ''u1'') Online)
        alice_context)) = 2
   \<and> on_ctx_event (Some alice_user) (Friend_status (js ''u9'') Online) alice_context
       = alice_context"
proof -
  have a: "cc_friends alice_context = [ctx_bob, ctx_carol]"
    by (simp add: alice_context_def)
  have b: "fr_id ctx_bob = js ''u1''" "fr_id ctx_carol \<noteq> js ''u1''"
    "fr_id ctx_bob \<noteq> js ''u9''" "fr_id ctx_carol \<noteq> js ''u9''"
    by (simp_all add: ctx_bob_def ctx_carol_def js_def)
  have c: "\<forall>f \<in> set (cc_friends alice_context). fr_id f \<noteq> js ''u9''"
    using a b by simp
  have d: "(0::nat) < length (cc_friends alice_context)" "(1::nat) < length (cc_friends alice_context)"
    using a by simp_all
  note t1 = friend_status_changes_only_status [of "Some alice_user" "js ''u1''" Online alice_context]
  note t9 = friend_status_changes_only_status [of "Some alice_user" "js ''u9''" Online alice_context]
  from t1 d a b have "cc_friends (on_ctx_event (Some alice_user) (Friend_status (js ''u1'') Online)
      alice_context) ! 0 = ctx_bob\<lparr>fr_status := Online\<rparr>"
    by (metis nth_Cons_0)
  moreover from t1 d a b have "cc_friends (on_ctx_event (Some alice_user)
      (Friend_status (js ''u1'') Online) alice_context) ! 1 = ctx_carol"
    by (metis One_nat_def nth_Cons_0 nth_Cons_Suc)
  moreover from t1 a have "length (cc_friends (on_ctx_event (Some alice_user)
      (Friend_status (js ''u1'') Online) alice_context)) = 2"
    by simp
  moreover from t9 c have "on_ctx_event (Some alice_user) (Friend_status (js ''u9'') Online)
      alice_context = alice_context"
    by blast
  ultimately show ?thesis
    using a by blast
qed

subsection \<open>C7: removing a friend\<close>

text \<open>
  Claim C7. Once the user has confirmed, \<open>handleRemoveFriend\<close> of FriendsList (both
  variants) first sends the DELETE; when the server answers with success (an \<open>ok\<close> response
  whose body has \<open>success\<close> set) the friends are the previous friends without every entry
  of the removed username, in their previous order, and on every other outcome of the
  request the friends are unchanged. \<open>removeFriend\<close> of ChatProvider, for a logged-in user,
  sends the DELETE and filters out every entry with the removed id when \<open>axios\<close> resolves;
  when it rejects the friends are unchanged.
\<close>

theorem remove_friend_filters_on_success:
  "fl_friends (handleRemoveFriend props True name del sg st)
     = (if responded_success del then filter (\<lambda>f. f_username f \<noteq> name) (fl_friends st)
        else fl_friends st)
   \<and> sent (handleRemoveFriend props True name del sg st)
     = sent st @ Request DELETE api_friends [(''username'', name)]
         # (if responded_success del then [Request GET api_suggestions []] else [])
   \<and> fl_friends (handleRemoveFriend_part000 props True name del st)
     = (if responded_success del then filter (\<lambda>f. f_username f \<noteq> name) (fl_friends st)
        else fl_friends st)
   \<and> sent (handleRemoveFriend_part000 props True name del st)
     = sent st @ [Request DELETE api_friends [(''username'', name)]]
   \<and> cc_friends (fst (removeFriend (Some u) uid res ctx))
     = (case res of
          Resolved d \<Rightarrow> filter (\<lambda>friend. fr_id friend \<noteq> uid) (cc_friends ctx)
        | Axios_rejected e \<Rightarrow> cc_friends ctx)
   \<and> sent (fst (removeFriend (Some u) uid res ctx))
     = sent ctx @ [Request DELETE (js ''http://localhost:5000/api/friends/'' @ uid) []]"
  by (intro conjI)
    (rule handleRemoveFriend_friends handleRemoveFriend_sent handleRemoveFriend_part000_friends
      handleRemoveFriend_part000_sent removeFriend_friends removeFriend_sent)+

theorem remove_friend_filters_on_success_witness:
  "fl_friends alice_friends_list = [bob, carol]
   \<and> responded_success accepted
   \<and> fl_friends (handleRemoveFriend alice_props True (js ''bob'') accepted (Rejected [])
        alice_friends_list) = [carol]
   \<and> \<not> responded_success refused
   \<and> fl_friends (handleRemoveFriend alice_props True (js ''bob'') refused (Rejected [])
        alice_friends_list) = [bob, carol]
   \<and> fl_friends (handleRemoveFriend_part000 alice_props True (js ''bob'') (Rejected [])
        alice_friends_list) = [bob, carol]
   \<and> cc_friends (fst (removeFriend (Some alice_user) (js ''u1'') (Resolved ()) alice_context))
       = [ctx_carol]
   \<and> cc_friends (fst (removeFriend (Some alice_user) (js ''u1'')
        (Axios_rejected (js ''Network Error'')) alice_context)) = [ctx_bob, ctx_carol]"
proof -
  have a: "fl_friends alice_friends_list = [bob, carol]"
    "cc_friends alice_context = [ctx_bob, ctx_carol]"
    by (simp_all add: alice_friends_list_def alice_context_def)
  have b: "responded_success accepted" "\<not> responded_success refused"
    "\<not> responded_success (Rejected [] :: unit fetch_result)"
    by (simp_all add: responded_success_def accepted_def refused_def)
  have c: "f_username bob = js ''bob''" "f_username carol \<noteq> js ''bob''"
    "fr_id ctx_bob = js ''u1''" "fr_id ctx_carol \<noteq> js ''u1''"
    by (simp_all add: bob_def carol_def ctx_bob_def ctx_carol_def js_def)
  show ?thesis
    using
      remove_friend_filters_on_success [of alice_props "js ''bob''" accepted "Rejected []"
        alice_friends_list alice_user "js ''u1''" "Resolved ()" alice_context]
      remove_friend_filters_on_success [of alice_props "js ''bob''" refused "Rejected []"
        alice_friends_list alice_user "js ''u1''" "Axios_rejected (js ''Network Error'')"
        alice_context]
      remove_friend_filters_on_success [of alice_props "js ''bob''" "Rejected []" "Rejected []"
        alice_friends_list alice_user "js ''u1''" "Resolved ()" alice_context]
    by (simp add: a b c)
qed

subsection \<open>C8: clearing the notifications\<close>

text \<open>
  Claim C8. \<open>clearNotifications\<close> sends one DELETE to \<open>/api/notifications\<close>. In the two
  Notifications components the list is emptied when the server answers with success (an
  \<open>ok\<close> response whose body has \<open>success\<close> set) and is unchanged on every other outcome: a
  rejected request, a status that is not \<open>ok\<close>, a body that does not parse, \<open>success\<close> not
  set. The handler of App, which no component calls, reads the body without looking at the
  status; it does the same on every answer whose body does not say success under a status
  that is not \<open>ok\<close>.
\<close>

theorem clear_notifications_on_success:
  "nv_notifications (clearNotifications_part000 res st)
     = (if responded_success res then [] else nv_notifications st)
   \<and> sent (clearNotifications_part000 res st) = sent st @ [Request DELETE api_notifications []]
   \<and> nv_notifications (clearNotifications_part004 res st)
     = (if responded_success res then [] else nv_notifications st)
   \<and> sent (clearNotifications_part004 res st) = sent st @ [Request DELETE api_notifications []]
   \<and> ((body_says_success res \<longrightarrow> responded_success res) \<longrightarrow>
        app_notifications (clearNotifications res a)
          = (if responded_success res then [] else app_notifications a))
   \<and> sent (clearNotifications res a) = sent a @ [Request DELETE api_notifications []]"
proof (intro conjI impI)
  show "nv_notifications (clearNotifications_part000 res st)
     = (if responded_success res then [] else nv_notifications st)"
    by (cases "responded_success res")
      (auto simp add: clearNotifications_part000_def Let_def fetch_def console_error_def
        dest: ok_json_no_success
          ok_json_success [where failure = "js ''Failed to clear notifications''"]
        split: sum.split)
  show "nv_notifications (clearNotifications_part004 res st)
     = (if responded_success res then [] else nv_notifications st)"
    by (cases "responded_success res")
      (auto simp add: clearNotifications_part004_def Let_def fetch_def console_error_def
        dest: ok_json_no_success
          ok_json_success [where failure = "js ''Failed to clear notifications''"]
        split: sum.split)
  show "sent (clearNotifications_part000 res st) = sent st @ [Request DELETE api_notifications []]"
    by (simp add: clearNotifications_part000_def Let_def fetch_def console_error_def
        split: sum.split)
  show "sent (clearNotifications_part004 res st) = sent st @ [Request DELETE api_notifications []]"
    by (simp add: clearNotifications_part004_def Let_def fetch_def console_error_def
        split: sum.split)
  show "sent (clearNotifications res a) = sent a @ [Request DELETE api_notifications []]"
    by (simp add: clearNotifications_def Let_def fetch_def console_error_def split: sum.split)
  assume "body_says_success res \<longrightarrow> responded_success res"
  then show "app_notifications (clearNotifications res a)
     = (if responded_success res then [] else app_notifications a)"
    by (auto simp add: clearNotifications_def Let_def fetch_def console_error_def any_json_def
        body_says_success_def responded_success_def split: sum.split fetch_result.split)
qed

theorem clear_notifications_on_success_witness:
  "responded_success accepted
   \<and> nv_notifications (clearNotifications_part000 accepted two_notifications) = []
   \<and> nv_notifications (clearNotifications_part004 accepted two_notifications) = []
   \<and> app_notifications (clearNotifications accepted app_two_notifications) = []
   \<and> sent (clearNotifications_part004 accepted two_notifications)
       = [Request DELETE api_notifications []]
   \<and> \<not> responded_success refused
   \<and> nv_notifications (clearNotifications_part000 refused two_notifications)
       = [js ''bob added you'', js ''carol added you'']
   \<and> nv_notifications (clearNotifications_part004 refused two_notifications)
       = [js ''bob added you'', js ''carol added you'']
   \<and> app_notifications (clearNotifications refused app_two_notifications)
       = [js ''bob added you'', js ''carol added you'']
   \<and> \<not> responded_success failed_with_success_body
   \<and> nv_notifications (clearNotifications_part004 failed_with_success_body two_notifications)
       = [js ''bob added you'', js ''carol added you'']
   \<and> nv_notifications (clearNotifications_part000 (Rejected []) two_notifications)
       = [js ''bob added you'', js ''carol added you'']"
proof -
  have a: "responded_success accepted" "body_says_success accepted"
    "\<not> responded_success refused" "\<not> body_says_success refused"
    "\<not> responded_success failed_with_success_body"
    "\<not> responded_success (Rejected [] :: unit fetch_result)"
    by (simp_all add: responded_success_def body_says_success_def accepted_def refused_def
        failed_with_success_body_def)
  have b: "nv_notifications two_notifications = [js ''bob added you'', js ''carol added you'']"
    "app_notifications app_two_notifications = [js ''bob added you'', js ''carol added you'']"
    "sent two_notifications = []"
    by (simp_all add: two_notifications_def app_two_notifications_def)
  show ?thesis
    using a b
      clear_notifications_on_success [of accepted two_notifications app_two_notifications]
      clear_notifications_on_success [of refused two_notifications app_two_notifications]
      clear_notifications_on_success [of failed_with_success_body two_notifications
        app_two_notifications]
      clear_notifications_on_success [of "Rejected []" two_notifications app_two_notifications]
    by simp
qed

subsection \<open>C9: the checks of Register and their order\<close>

text \<open>
  Claim C9. Once the three fields of Register are not blank, the submit handler checks, in
  this order and before any request: the two passwords are the same string
  (\<open>Passwords do not match\<close>), the username has at least 3 code units
  (\<open>Username must be at least 3 characters\<close>), the password has at least 6
  (\<open>Password must be at least 6 characters\<close>). A failed check only sets its error: the
  state is otherwise unchanged and no request is recorded. When all pass, the one POST to
  \<open>/api/register\<close> is sent.
\<close>

theorem register_validation_order:
  assumes "trim (rg_username st) \<noteq> []" and "trim (rg_password st) \<noteq> []"
    and "trim (rg_confirmPassword st) \<noteq> []"
  shows "(rg_password st \<noteq> rg_confirmPassword st \<longrightarrow>
            register_handleSubmit res st = st\<lparr>rg_error := Some (js ''Passwords do not match'')\<rparr>)
       \<and> (rg_password st = rg_confirmPassword st \<and> length (rg_username st) < 3 \<longrightarrow>
            register_handleSubmit res st
              = st\<lparr>rg_error := Some (js ''Username must be at least 3 characters'')\<rparr>)
       \<and> (rg_password st = rg_confirmPassword st \<and> 3 \<le> length (rg_username st)
            \<and> length (rg_password st) < 6 \<longrightarrow>
            register_handleSubmit res st
              = st\<lparr>rg_error := Some (js ''Password must be at least 6 characters'')\<rparr>)
       \<and> (rg_password st = rg_confirmPassword st \<and> 3 \<le> length (rg_username st)
            \<and> 6 \<le> length (rg_password st) \<longrightarrow>
            sent (register_handleSubmit res st)
              = sent st @ [Request POST (js ''http://localhost:5000/api/register'')
                             [(''username'', trim (rg_username st)),
                              (''password'', rg_password st)]])"
proof (intro conjI impI)
  assume "rg_password st \<noteq> rg_confirmPassword st"
  with assms show
    "register_handleSubmit res st = st\<lparr>rg_error := Some (js ''Passwords do not match'')\<rparr>"
    by (auto simp add: register_handleSubmit_def Let_def)
next
  assume "rg_password st = rg_confirmPassword st \<and> length (rg_username st) < 3"
  with assms show
    "register_handleSubmit res st
       = st\<lparr>rg_error := Some (js ''Username must be at least 3 characters'')\<rparr>"
    by (auto simp add: register_handleSubmit_def Let_def)
next
  assume "rg_password st = rg_confirmPassword st \<and> 3 \<le> length (rg_username st)
    \<and> length (rg_password st) < 6"
  with assms show
    "register_handleSubmit res st
       = st\<lparr>rg_error := Some (js ''Password must be at least 6 characters'')\<rparr>"
    by (auto simp add: register_handleSubmit_def Let_def)
next
  assume "rg_password st = rg_confirmPassword st \<and> 3 \<le> length (rg_username st)
    \<and> 6 \<le> length (rg_password st)"
  with assms show
    "sent (register_handleSubmit res st)
       = sent st @ [Request POST (js ''http://localhost:5000/api/register'')
                      [(''username'', trim (rg_username st)), (''password'', rg_password st)]]"
    by (auto simp add: register_handleSubmit_def Let_def fetch_def console_error_def
        split: sum.split)
qed

theorem register_validation_order_witness:
  "rg_error (register_handleSubmit accepted short_register) = Some (js ''Passwords do not match'')
   \<and> sent (register_handleSubmit accepted short_register) = []
   \<and> rg_error (register_handleSubmit accepted (short_register\<lparr>rg_confirmPassword := js ''abc''\<rparr>))
       = Some (js ''Username must be at least 3 characters'')
   \<and> rg_error (register_handleSubmit accepted
         (short_register\<lparr>rg_username := js ''abc'', rg_confirmPassword := js ''abc''\<rparr>))
       = Some (js ''Password must be at least 6 characters'')
   \<and> length (sent (register_handleSubmit accepted
         (short_register\<lparr>rg_username := js ''abc'', rg_password := js ''abcdef'',
            rg_confirmPassword := js ''abcdef''\<rparr>))) = 1"
proof -
  have t: "trim (js ''ab'') \<noteq> []" "trim (js ''abc'') \<noteq> []" "trim (js ''abd'') \<noteq> []"
    "trim (js ''abcdef'') \<noteq> []"
    by (simp_all add: trim_def js_def is_white_space_def)
  have ne: "js ''abc'' \<noteq> js ''abd''"
    by (simp add: js_def)
  have len: "length (js ''ab'') = 2" "length (js ''abc'') = 3" "length (js ''abcdef'') = 6"
    by (simp_all add: js_def)
  show ?thesis
    using t ne len
      register_validation_order [of short_register accepted]
      register_validation_order [of "short_register\<lparr>rg_confirmPassword := js ''abc''\<rparr>" accepted]
      register_validation_order [of "short_register\<lparr>rg_username := js ''abc'',
        rg_confirmPassword := js ''abc''\<rparr>" accepted]
      register_validation_order [of "short_register\<lparr>rg_username := js ''abc'',
        rg_password := js ''abcdef'', rg_confirmPassword := js ''abcdef''\<rparr>" accepted]
    by (simp add: short_register_def)
qed

subsection \<open>C10: the form does not add the user to their own friends\<close>

text \<open>
  Claim C10. When the name submitted in the add-friend form is the logged-in username, the
  handler (in both variants of FriendsList) only sets the error
  \<open>You can't add yourself as a friend\<close> and clears the success text: no request is
  recorded and the friends list is unchanged. A logged-in username is not blank: Login and
  Register stop a blank username before any request, and the form's submit button is
  disabled while \<open>newFriend.trim()\<close> is empty. (On a blank name the handler's first check
  would answer \<open>Please enter a username\<close>.)
\<close>

theorem add_self_rejected:
  assumes "trim u \<noteq> []" and "fl_newFriend st = u" and "username props = u"
  shows "handleAddFriend props post fr sg st
           = st\<lparr>fl_error := js ''You can't add yourself as a friend'', fl_success := []\<rparr>
       \<and> handleAddFriend_part000 props post fr st
           = st\<lparr>fl_error := js ''You can't add yourself as a friend'', fl_success := []\<rparr>"
  using assms by (simp add: handleAddFriend_def handleAddFriend_part000_def Let_def)

theorem add_self_rejected_witness:
  "trim (js ''alice'') \<noteq> []
   \<and> username alice_props = js ''alice''
   \<and> fl_error (handleAddFriend alice_props accepted (Rejected []) (Rejected [])
        (alice_friends_list\<lparr>fl_newFriend := js ''alice''\<rparr>))
       = js ''You can't add yourself as a friend''
   \<and> sent (handleAddFriend alice_props accepted (Rejected []) (Rejected [])
        (alice_friends_list\<lparr>fl_newFriend := js ''alice''\<rparr>)) = []
   \<and> fl_friends (handleAddFriend_part000 alice_props accepted (Rejected [])
        (alice_friends_list\<lparr>fl_newFriend := js ''alice''\<rparr>)) = [bob, carol]"
proof -
  have a: "trim (js ''alice'') \<noteq> []"
    by (simp add: trim_def js_def is_white_space_def)
  have b: "fl_newFriend (alice_friends_list\<lparr>fl_newFriend := js ''alice''\<rparr>) = js ''alice''"
    by simp
  have c: "username alice_props = js ''alice''"
    by (simp add: alice_props_def)
  show ?thesis
    using a c add_self_rejected [OF a b c, where post = accepted and fr = "Rejected []"
        and sg = "Rejected []"]
    by (simp add: alice_friends_list_def)
qed

end
